theory Spec2Isabelle
  imports Main "HOL-Library.Word" "HOL-Library.Sublist"
begin

section \<open>Data model of \<open>mind.cpp\<close>\<close>

text \<open>
  \<open>Mind\<close> works on objects it reaches through pointers: \<open>Outline*\<close>, \<open>Note*\<close>,
  \<open>const Tag*\<close>, \<open>const NoteType*\<close>. A pointer is an address (a natural number); a
  pointer that may be \<open>nullptr\<close> is an \<open>option\<close>, with \<open>None\<close> for \<open>nullptr\<close>. The
  objects live in a store that maps every address to an object, so this model has the
  null pointer and no dangling one.
\<close>

type_synonym key = string
type_synonym outline_ptr = nat
type_synonym note_ptr = nat
type_synonym tag_ptr = nat
type_synonym type_ptr = nat
type_synonym time = nat
type_synonym ai_handle = nat

text \<open>\<open>Configuration::MindState\<close>.\<close>

datatype MindState = SLEEPING | DREAMING | THINKING

text \<open>
  The fields of a \<open>Note\<close> and of an \<open>Outline\<close> that \<open>mind.cpp\<close> reads or sets. A
  description is a \<open>vector<string*>\<close>: a block may be a null pointer.
\<close>

record Note =
  n_outline :: "outline_ptr option"
  n_name :: string
  n_description :: "string option list"
  n_type :: "type_ptr option"
  n_depth :: "16 word"
  n_tags :: "tag_ptr list"
  n_progress :: "8 word"
  n_modified :: time
  n_modifiedPretty :: string

record Outline =
  o_key :: key
  o_name :: string
  o_description :: "string option list"
  o_preamble :: "string option list"
  o_type :: "type_ptr option"
  o_importance :: "8 word"
  o_urgency :: "8 word"
  o_progress :: "8 word"
  o_tags :: "tag_ptr list"
  o_notes :: "note_ptr list"
  o_modified :: time

text \<open>
  The object graph: the Outlines \<open>Memory\<close> holds (\<open>memory.getOutlines()\<close>), the store of
  Outline and Note objects, and the next free address for \<open>new\<close>.
\<close>

record Graph =
  outlines :: "outline_ptr list"
  outline_at :: "outline_ptr \<Rightarrow> Outline"
  note_at :: "note_ptr \<Rightarrow> Note"
  next_ptr :: nat

text \<open>
  Calls whose effect leaves the process (files written or moved by the persistence
  layer), kept in the order they were made.
\<close>

datatype Call =
  ConfigSave MindState
  | MemoryRemember outline_ptr
  | MemoryForget outline_ptr
  | MemoryAmnesia
  | MemoryLearn
  | MoveFile key key

text \<open>
  The members of \<open>Mind\<close>: the mind state kept by \<open>config\<close>, the count of active
  processes, the three derived caches, the time scope aspect's switch, and the graph
  behind \<open>memory\<close>.
\<close>

record Mind =
  mindState :: MindState
  activeProcesses :: int
  allNotesCache :: "note_ptr list"
  memoryDwell :: "note_ptr list"
  triples :: "nat list"
  timeScopeEnabled :: bool
  graph :: Graph
  calls :: "Call list"

text \<open>A \<open>future<bool>\<close>: already resolved by a \<open>promise\<close>, or the handle \<open>ai->dream()\<close> returned.\<close>

datatype future = Resolved bool | AiFuture ai_handle

text \<open>
  What a call can end in besides its result: a \<open>MindForgerException\<close> with its message,
  thrown in the given state of the \<open>Mind\<close>, or the dereference of a null pointer
  (undefined behaviour in C++, a fault here).
\<close>

datatype fault = MindForgerException string Mind | NullPointerDereference

text \<open>A \<open>Stencil\<close> is a template for an Outline or a Note; only its identity matters here.\<close>

type_synonym Stencil = nat

text \<open>An \<open>Outline::Patch\<close> is the range of rows a move changed.\<close>

type_synonym Patch = "nat \<times> nat"

text \<open>
  The code of the collaborators is not part of \<open>mind.cpp\<close>. Their answers and the
  methods of \<open>Outline\<close>, \<open>Note\<close>, \<open>Memory\<close>, \<open>Ai\<close> and \<open>TimeScopeAspect\<close> that \<open>Mind\<close>
  only calls are parameters of the model. \<open>Ai\<close> was built with a reference to the
  \<open>Mind\<close>, so its answers may depend on the \<open>Mind\<close> it sees when called. The methods
  of \<open>Outline\<close> and \<open>Memory\<close> work on the graph; they have no access to the private members
  of \<open>Mind\<close>. \<open>createNote\<close> gives the content of the Note that \<open>memory.createNote\<close>
  builds from the stencil, \<open>None\<close> when it returns \<open>nullptr\<close>.
\<close>

record Env =
  ai_sleep :: "Mind \<Rightarrow> bool"
  ai_dream :: "Mind \<Rightarrow> ai_handle"
  memory_learn :: "Graph \<Rightarrow> Graph"
  datetimeNow :: time
  datetimeToPrettyHtml :: "time \<Rightarrow> string"
  NO_PARENT :: int
  isOutOfScope :: "Note \<Rightarrow> bool"
  getOutlineDescriptorAsNote :: "Graph \<Rightarrow> outline_ptr \<Rightarrow> note_ptr"
  createOutlineKey :: "Graph \<Rightarrow> string option \<Rightarrow> key"
  createLimboKey :: "Graph \<Rightarrow> string option \<Rightarrow> key"
  createOutline :: "Graph \<Rightarrow> Stencil \<Rightarrow> outline_ptr option \<times> Graph"
  createNote :: "Stencil option \<Rightarrow> Note option"
  getDefaultOutlineType :: type_ptr
  keyNoteType :: type_ptr
  Outline_ctor :: "type_ptr \<Rightarrow> Outline"
  Outline_copy :: "Graph \<Rightarrow> outline_ptr \<Rightarrow> outline_ptr \<times> Graph"
  Outline_completeProperties :: "time \<Rightarrow> Outline \<Rightarrow> Outline"
  Note_ctor :: "type_ptr \<Rightarrow> outline_ptr \<Rightarrow> Note"
  Note_completeProperties :: "time \<Rightarrow> Note \<Rightarrow> Note"
  cloneNote :: "Graph \<Rightarrow> outline_ptr \<Rightarrow> note_ptr option \<Rightarrow> note_ptr option \<times> Graph"
  forgetNote :: "Graph \<Rightarrow> outline_ptr \<Rightarrow> note_ptr \<Rightarrow> Graph"
  moveNoteUp :: "Graph \<Rightarrow> outline_ptr \<Rightarrow> note_ptr \<Rightarrow> Patch option \<Rightarrow> Patch option \<times> Graph"
  moveNoteDown :: "Graph \<Rightarrow> outline_ptr \<Rightarrow> note_ptr \<Rightarrow> Patch option \<Rightarrow> Patch option \<times> Graph"
  moveNoteToFirst :: "Graph \<Rightarrow> outline_ptr \<Rightarrow> note_ptr \<Rightarrow> Patch option \<Rightarrow> Patch option \<times> Graph"
  moveNoteToLast :: "Graph \<Rightarrow> outline_ptr \<Rightarrow> note_ptr \<Rightarrow> Patch option \<Rightarrow> Patch option \<times> Graph"
  promoteNote :: "Graph \<Rightarrow> outline_ptr \<Rightarrow> note_ptr \<Rightarrow> Patch option \<Rightarrow> Patch option \<times> Graph"
  demoteNote :: "Graph \<Rightarrow> outline_ptr \<Rightarrow> note_ptr \<Rightarrow> Patch option \<Rightarrow> Patch option \<times> Graph"

section \<open>Thinking: the state machine\<close>

text \<open>
  Modelled from the spec: \<open>Memory::amnesia\<close> is not in the sources. The spec: it
  "discards all learned data in Memory (full reset)". Memory then holds no Outline.
\<close>

definition memory_amnesia :: "Mind \<Rightarrow> Mind" where
  "memory_amnesia m =
     m\<lparr>graph := (graph m)\<lparr>outlines := []\<rparr>, calls := calls m @ [MemoryAmnesia]\<rparr>"

text \<open>\<open>Mind::mindDream\<close>.\<close>

definition mindDream :: "Env \<Rightarrow> Mind \<Rightarrow> future \<times> Mind" where
  "mindDream env m =
     (if mindState m = SLEEPING then
        (let m1 = m\<lparr>mindState := DREAMING\<rparr>
         in (AiFuture (ai_dream env m1), m1))
      else (Resolved False, m))"

text \<open>\<open>Mind::think\<close>. The \<open>lock_guard\<close> of the public entry points has no effect on a single thread.\<close>

definition think :: "Env \<Rightarrow> Mind \<Rightarrow> future \<times> Mind" where
  "think env m =
     (if mindState m = SLEEPING then mindDream env m
      else (Resolved False, m))"

text \<open>\<open>Mind::mindSleep\<close>.\<close>

definition mindSleep :: "Env \<Rightarrow> Mind \<Rightarrow> bool \<times> Mind" where
  "mindSleep env m =
     (if mindState m \<noteq> DREAMING \<and> activeProcesses m = 0 then
        (if ai_sleep env m then
           (let m1 = m\<lparr>allNotesCache := []\<rparr>;
                m2 = m1\<lparr>memoryDwell := []\<rparr>;
                m3 = m2\<lparr>triples := []\<rparr>;
                m4 = m3\<lparr>mindState := SLEEPING\<rparr>;
                m5 = m4\<lparr>calls := calls m4 @ [ConfigSave (mindState m4)]\<rparr>
            in (True, m5))
         else (False, m))
      else (False, m))"

text \<open>\<open>Mind::sleep\<close>.\<close>

definition sleep :: "Env \<Rightarrow> Mind \<Rightarrow> bool \<times> Mind" where
  "sleep env m = mindSleep env m"

text \<open>\<open>Mind::mindAmnesia\<close>: the result of \<open>mindSleep()\<close> is dropped.\<close>

definition mindAmnesia :: "Env \<Rightarrow> Mind \<Rightarrow> bool \<times> Mind" where
  "mindAmnesia env m =
     (if mindState m \<noteq> DREAMING \<and> activeProcesses m = 0 then
        (let m1 = snd (mindSleep env m);
             m2 = memory_amnesia m1
         in (True, m2))
      else (False, m))"

text \<open>\<open>Mind::amnesia\<close>.\<close>

definition amnesia :: "Env \<Rightarrow> Mind \<Rightarrow> bool \<times> Mind" where
  "amnesia env m = mindAmnesia env m"

text \<open>\<open>Mind::learn\<close>; \<open>memory.learn()\<close> reloads the repository.\<close>

definition learn :: "Env \<Rightarrow> Mind \<Rightarrow> bool \<times> Mind" where
  "learn env m =
     (if mindState m \<noteq> DREAMING \<and> activeProcesses m = 0 then
        (let m1 = snd (mindAmnesia env m);
             m2 = m1\<lparr>graph := memory_learn env (graph m1), calls := calls m1 @ [MemoryLearn]\<rparr>
         in (True, m2))
      else (False, m))"

text \<open>\<open>Mind::onRemembering\<close>.\<close>

definition onRemembering :: "Mind \<Rightarrow> Mind" where
  "onRemembering m = m\<lparr>allNotesCache := []\<rparr>"

section \<open>Remembering: full-text search\<close>

text \<open>
  Modelled from the spec: \<open>stringToLower\<close> is not in the sources. The spec: the
  compared text is "lowercased". As \<open>tolower\<close> does in the C locale, the letters
  \<open>A\<close> to \<open>Z\<close> (bytes 65 to 90) move by 32 and every other byte stays.
\<close>

definition toLower :: "char \<Rightarrow> char" where
  "toLower c =
     (if (65::nat) \<le> of_char c \<and> of_char c \<le> (90::nat) then char_of (of_char c + (32::nat))
      else c)"

definition stringToLower :: "string \<Rightarrow> string" where
  "stringToLower s = map toLower s"

text \<open>
  \<open>std::string::find\<close>: the position of the first occurrence of the pattern, \<open>None\<close> for
  \<open>string::npos\<close>. The empty pattern is found at position 0 of every string.
\<close>

primrec string_find :: "string \<Rightarrow> string \<Rightarrow> nat option" where
  "string_find [] r = (if r = [] then Some 0 else None)"
| "string_find (c # cs) r =
     (if prefix r (c # cs) then Some 0 else map_option Suc (string_find cs r))"

text \<open>
  The loops over a description, each left by \<open>break\<close> at the first block that matches;
  the result says whether the loop pushed a match. A null block is skipped.
\<close>

primrec descriptionFindLower :: "string \<Rightarrow> string option list \<Rightarrow> bool" where
  "descriptionFindLower regexp [] = False"
| "descriptionFindLower regexp (d # ds) =
     (case d of
        None \<Rightarrow> descriptionFindLower regexp ds
      | Some t \<Rightarrow>
          (if string_find (stringToLower t) regexp \<noteq> None then True
           else descriptionFindLower regexp ds))"

primrec descriptionFind :: "string \<Rightarrow> string option list \<Rightarrow> bool" where
  "descriptionFind regexp [] = False"
| "descriptionFind regexp (d # ds) =
     (case d of
        None \<Rightarrow> descriptionFind regexp ds
      | Some t \<Rightarrow>
          (if string_find t regexp \<noteq> None then True
           else descriptionFind regexp ds))"

text \<open>The loop over the Notes of an Outline in the case insensitive branch.\<close>

fun notesFtsIgnoreCase ::
  "Env \<Rightarrow> Mind \<Rightarrow> string \<Rightarrow> note_ptr list \<Rightarrow> note_ptr list \<Rightarrow> note_ptr list" where
  "notesFtsIgnoreCase env m regexp result [] = result"
| "notesFtsIgnoreCase env m regexp result (note # rest) =
     (if timeScopeEnabled m \<and> isOutOfScope env (note_at (graph m) note) then
        notesFtsIgnoreCase env m regexp result rest
      else if string_find (stringToLower (n_name (note_at (graph m) note))) regexp \<noteq> None then
        notesFtsIgnoreCase env m regexp (result @ [note]) rest
      else if descriptionFindLower regexp (n_description (note_at (graph m) note)) then
        notesFtsIgnoreCase env m regexp (result @ [note]) rest
      else notesFtsIgnoreCase env m regexp result rest)"

text \<open>The loop over the Notes of an Outline in the case sensitive branch.\<close>

fun notesFtsCaseSensitive ::
  "Mind \<Rightarrow> string \<Rightarrow> note_ptr list \<Rightarrow> note_ptr list \<Rightarrow> note_ptr list" where
  "notesFtsCaseSensitive m regexp result [] = result"
| "notesFtsCaseSensitive m regexp result (note # rest) =
     (if string_find (n_name (note_at (graph m) note)) regexp \<noteq> None then
        notesFtsCaseSensitive m regexp (result @ [note]) rest
      else if descriptionFind regexp (n_description (note_at (graph m) note)) then
        notesFtsCaseSensitive m regexp (result @ [note]) rest
      else notesFtsCaseSensitive m regexp result rest)"

text \<open>
  \<open>Mind::findNoteFts(vector<Note*>* result, const string& regexp, const bool ignoreCase,
  Outline* outline)\<close>: the search of one Outline, which pushes its matches to \<open>result\<close>.
\<close>

definition findNoteFtsOutline ::
  "Env \<Rightarrow> Mind \<Rightarrow> note_ptr list \<Rightarrow> string \<Rightarrow> bool \<Rightarrow> outline_ptr \<Rightarrow> note_ptr list" where
  "findNoteFtsOutline env m result regexp ignoreCase outline =
     (let ol = outline_at (graph m) outline in
      if ignoreCase then
        (let result1 =
               (if string_find (stringToLower (o_name ol)) regexp \<noteq> None then
                  result @ [getOutlineDescriptorAsNote env (graph m) outline]
                else if descriptionFindLower regexp (o_description ol) then
                  result @ [getOutlineDescriptorAsNote env (graph m) outline]
                else result)
         in notesFtsIgnoreCase env m regexp result1 (o_notes ol))
      else
        (let result1 =
               (if string_find (o_name ol) regexp \<noteq> None then
                  result @ [getOutlineDescriptorAsNote env (graph m) outline]
                else if descriptionFind regexp (o_description ol) then
                  result @ [getOutlineDescriptorAsNote env (graph m) outline]
                else result)
         in notesFtsCaseSensitive m regexp result1 (o_notes ol)))"

text \<open>The loop of the public search over all Outlines of Memory.\<close>

fun findNoteFtsOutlines ::
  "Env \<Rightarrow> Mind \<Rightarrow> note_ptr list \<Rightarrow> string \<Rightarrow> bool \<Rightarrow> outline_ptr list \<Rightarrow> note_ptr list" where
  "findNoteFtsOutlines env m result r ignoreCase [] = result"
| "findNoteFtsOutlines env m result r ignoreCase (outline # rest) =
     findNoteFtsOutlines env m (findNoteFtsOutline env m result r ignoreCase outline) r ignoreCase rest"

text \<open>
  \<open>Mind::findNoteFts(const string& regexp, const bool ignoreCase, Outline* scope)\<close>: the
  public search. It returns the new vector and the \<open>Mind\<close> it leaves.
\<close>

definition findNoteFts ::
  "Env \<Rightarrow> Mind \<Rightarrow> string \<Rightarrow> bool \<Rightarrow> outline_ptr option \<Rightarrow> note_ptr list \<times> Mind" where
  "findNoteFts env m regexp ignoreCase scope =
     (let m1 = (if length (allNotesCache m) \<noteq> 0 then m\<lparr>allNotesCache := []\<rparr> else m);
          result = [];
          r = (if ignoreCase then stringToLower regexp else [] @ regexp)
      in (case scope of
            Some sc \<Rightarrow> (findNoteFtsOutline env m1 result r ignoreCase sc, m1)
          | None \<Rightarrow> (findNoteFtsOutlines env m1 result r ignoreCase (outlines (graph m1)), m1)))"

section \<open>Outlines and Notes: the structural operations\<close>

text \<open>Writing a field through a pointer, and \<open>new\<close>.\<close>

definition update_outline :: "Graph \<Rightarrow> outline_ptr \<Rightarrow> (Outline \<Rightarrow> Outline) \<Rightarrow> Graph" where
  "update_outline g p f = g\<lparr>outline_at := (outline_at g)(p := f (outline_at g p))\<rparr>"

definition update_note :: "Graph \<Rightarrow> note_ptr \<Rightarrow> (Note \<Rightarrow> Note) \<Rightarrow> Graph" where
  "update_note g p f = g\<lparr>note_at := (note_at g)(p := f (note_at g p))\<rparr>"

definition new_outline :: "Graph \<Rightarrow> Outline \<Rightarrow> outline_ptr \<times> Graph" where
  "new_outline g v =
     (next_ptr g, g\<lparr>outline_at := (outline_at g)(next_ptr g := v), next_ptr := Suc (next_ptr g)\<rparr>)"

definition new_note :: "Graph \<Rightarrow> Note \<Rightarrow> note_ptr \<times> Graph" where
  "new_note g v =
     (next_ptr g, g\<lparr>note_at := (note_at g)(next_ptr g := v), next_ptr := Suc (next_ptr g)\<rparr>)"

text \<open>
  Modelled from the spec: \<open>Memory::getOutline\<close>, \<open>Memory::remember\<close> and \<open>Memory::forget\<close>
  are not in the sources. The spec: Memory is "the persistent collection of all
  Outlines", an Outline's "key is unique across all Outlines in Memory", a "referenced
  Outline/Note key" may be "absent", \<open>remember\<close> "remembers the Outline in Memory" and
  \<open>forget\<close> "removes Outline from active Memory".
\<close>

definition getOutline :: "Graph \<Rightarrow> key \<Rightarrow> outline_ptr option" where
  "getOutline g k = find (\<lambda>p. o_key (outline_at g p) = k) (outlines g)"

definition memory_remember :: "Mind \<Rightarrow> outline_ptr \<Rightarrow> Mind" where
  "memory_remember m p =
     m\<lparr>graph := (graph m)\<lparr>outlines :=
            (if p \<in> set (outlines (graph m)) then outlines (graph m)
             else outlines (graph m) @ [p])\<rparr>,
       calls := calls m @ [MemoryRemember p]\<rparr>"

definition memory_forget :: "Mind \<Rightarrow> outline_ptr \<Rightarrow> Mind" where
  "memory_forget m p =
     m\<lparr>graph := (graph m)\<lparr>outlines := removeAll p (outlines (graph m))\<rparr>,
       calls := calls m @ [MemoryForget p]\<rparr>"

text \<open>
  Modelled from the spec: \<open>Outline::addNote\<close> (with and without an offset) is not in the
  sources. The spec: the Note is inserted "into the target Outline at \<open>offset\<close> (0
  meaning prepend/no-parent)"; without an offset the Note is added at the end. An offset
  past the end, on which the spec is silent, adds at the end.
\<close>

definition addNote :: "Graph \<Rightarrow> outline_ptr \<Rightarrow> note_ptr \<Rightarrow> nat \<Rightarrow> Graph" where
  "addNote g ol n offset =
     update_outline g ol
       (\<lambda>x. x\<lparr>o_notes := take offset (o_notes x) @ [n] @ drop offset (o_notes x)\<rparr>)"

definition addNoteLast :: "Graph \<Rightarrow> outline_ptr \<Rightarrow> note_ptr \<Rightarrow> Graph" where
  "addNoteLast g ol n = update_outline g ol (\<lambda>x. x\<lparr>o_notes := o_notes x @ [n]\<rparr>)"




text \<open>
  \<open>Mind::outlineNew\<close>. With a stencil, \<open>outline->setModified()\<close> is called on what
  \<open>memory.createOutline\<close> returned before the test \<open>if(outline)\<close>: a null pointer faults
  there, and the \<open>throw\<close> of the \<open>else\<close> branch is never reached.
\<close>

definition outlineNew ::
  "Env \<Rightarrow> Mind \<Rightarrow> string option \<Rightarrow> type_ptr option \<Rightarrow> 8 word \<Rightarrow> 8 word \<Rightarrow> 8 word
     \<Rightarrow> tag_ptr list option \<Rightarrow> string option list option \<Rightarrow> Stencil option
     \<Rightarrow> fault + (key \<times> Mind)" where
  "outlineNew env m name outlineType importance urgency progress tags preamble outlineStencil =
     (let k = createOutlineKey env (graph m) name;
          created =
            (case outlineStencil of
               Some st \<Rightarrow>
                 (case createOutline env (graph m) st of
                    (None, g1) \<Rightarrow> Inl NullPointerDereference
                  | (Some p, g1) \<Rightarrow>
                      Inr (p, update_outline g1 p (\<lambda>x. x\<lparr>o_modified := datetimeNow env\<rparr>)))
             | None \<Rightarrow> Inr (new_outline (graph m) (Outline_ctor env (getDefaultOutlineType env))))
      in case created of
           Inl f \<Rightarrow> Inl f
         | Inr (outline, g2) \<Rightarrow>
             (let g3 = (case preamble of
                          Some pre \<Rightarrow>
                            (if length pre \<noteq> 0 then update_outline g2 outline (\<lambda>x. x\<lparr>o_preamble := pre\<rparr>)
                             else g2)
                        | None \<Rightarrow> g2);
                  g4 = update_outline g3 outline (Outline_completeProperties env (datetimeNow env));
                  g5 = update_outline g4 outline (\<lambda>x. x\<lparr>o_key := k\<rparr>);
                  g6 = (case name of
                          Some s \<Rightarrow> (if s \<noteq> [] then update_outline g5 outline (\<lambda>x. x\<lparr>o_name := s\<rparr>) else g5)
                        | None \<Rightarrow> g5);
                  g7 = (case outlineType of
                          Some t \<Rightarrow> update_outline g6 outline (\<lambda>x. x\<lparr>o_type := Some t\<rparr>)
                        | None \<Rightarrow> g6);
                  g8 = update_outline g7 outline (\<lambda>x. x\<lparr>o_importance := importance\<rparr>);
                  g9 = update_outline g8 outline (\<lambda>x. x\<lparr>o_urgency := urgency\<rparr>);
                  g10 = update_outline g9 outline (\<lambda>x. x\<lparr>o_progress := progress\<rparr>);
                  g11 = (case tags of
                           Some ts \<Rightarrow> fold (\<lambda>t h. update_outline h outline (\<lambda>x. x\<lparr>o_tags := o_tags x @ [t]\<rparr>)) ts g10
                         | None \<Rightarrow> g10);
                  g12 = (if o_notes (outline_at g11 outline) = [] then
                           (let (note, h1) = new_note g11 (Note_ctor env (keyNoteType env) outline);
                                h2 = update_note h1 note (Note_completeProperties env (datetimeNow env))
                            in addNoteLast h2 outline note)
                         else g11);
                  m1 = memory_remember (m\<lparr>graph := g12\<rparr>) outline;
                  m2 = onRemembering m1
              in Inr (o_key (outline_at (graph m2) outline), m2)))"

text \<open>\<open>Mind::outlineClone\<close>.\<close>

definition outlineClone :: "Env \<Rightarrow> Mind \<Rightarrow> key \<Rightarrow> outline_ptr option \<times> Mind" where
  "outlineClone env m outlineKey =
     (case getOutline (graph m) outlineKey of
        Some ol \<Rightarrow>
          (let (clonedOutline, g1) = Outline_copy env (graph m) ol;
               g2 = update_outline g1 clonedOutline
                      (\<lambda>x. x\<lparr>o_key := createOutlineKey env g1 (Some (o_name (outline_at g1 ol)))\<rparr>);
               m1 = memory_remember (m\<lparr>graph := g2\<rparr>) clonedOutline;
               m2 = onRemembering m1
           in (Some clonedOutline, m2))
      | None \<Rightarrow> (None, m))"

text \<open>\<open>Mind::outlineForget\<close>.\<close>

definition outlineForget :: "Env \<Rightarrow> Mind \<Rightarrow> key \<Rightarrow> bool \<times> Mind" where
  "outlineForget env m outlineKey =
     (case getOutline (graph m) outlineKey of
        Some ol \<Rightarrow>
          (let m1 = memory_forget m ol;
               k = createLimboKey env (graph m1) (Some (o_name (outline_at (graph m1) ol)));
               m2 = m1\<lparr>graph := update_outline (graph m1) ol (\<lambda>x. x\<lparr>o_key := k\<rparr>)\<rparr>;
               m3 = m2\<lparr>calls := calls m2 @ [MoveFile outlineKey k]\<rparr>
           in (True, m3))
      | None \<Rightarrow> (False, m))"

text \<open>
  \<open>Mind::noteNew\<close>. The \<open>offset\<close> is a \<open>uint16_t\<close>, promoted to \<open>int\<close> for the comparison
  with the constant \<open>NO_PARENT\<close>, whose declaration is not in the sources.
\<close>

definition noteNew ::
  "Env \<Rightarrow> Mind \<Rightarrow> key \<Rightarrow> 16 word \<Rightarrow> string option \<Rightarrow> type_ptr option \<Rightarrow> 16 word
     \<Rightarrow> tag_ptr list option \<Rightarrow> 8 word \<Rightarrow> Stencil option \<Rightarrow> fault + (note_ptr \<times> Mind)" where
  "noteNew env m outlineKey offset name noteType depth tags progress noteStencil =
     (case getOutline (graph m) outlineKey of
        Some ol \<Rightarrow>
          (let (n, g2) = (case createNote env noteStencil of
                            Some v \<Rightarrow> new_note (graph m) v
                          | None \<Rightarrow> new_note (graph m) (Note_ctor env (keyNoteType env) ol));
               g3 = update_note g2 n (\<lambda>x. x\<lparr>n_outline := Some ol\<rparr>);
               g4 = (case name of
                       Some s \<Rightarrow> update_note g3 n (\<lambda>x. x\<lparr>n_name := s\<rparr>)
                     | None \<Rightarrow> g3);
               g5 = update_note g4 n (\<lambda>x. x\<lparr>n_modified := datetimeNow env\<rparr>);
               g6 = update_note g5 n (\<lambda>x. x\<lparr>n_modifiedPretty := datetimeToPrettyHtml env (n_modified x)\<rparr>);
               g7 = (case noteType of
                       Some t \<Rightarrow> update_note g6 n (\<lambda>x. x\<lparr>n_type := Some t\<rparr>)
                     | None \<Rightarrow> g6);
               g8 = update_note g7 n (\<lambda>x. x\<lparr>n_depth := depth\<rparr>);
               g9 = (case tags of
                       Some ts \<Rightarrow> update_note g8 n (\<lambda>x. x\<lparr>n_tags := ts\<rparr>)
                     | None \<Rightarrow> g8);
               g10 = update_note g9 n (\<lambda>x. x\<lparr>n_progress := progress\<rparr>);
               g11 = update_note g10 n (\<lambda>x. Note_completeProperties env (n_modified x) x);
               g12 = addNote g11 ol n (if NO_PARENT env = uint offset then 0 else unat offset)
           in Inr (n, m\<lparr>graph := g12\<rparr>))
      | None \<Rightarrow> Inl (MindForgerException ''Outline for given key not found!'' m))"

text \<open>\<open>Mind::noteClone\<close>.\<close>

definition noteClone ::
  "Env \<Rightarrow> Mind \<Rightarrow> key \<Rightarrow> note_ptr option \<Rightarrow> fault + (note_ptr option \<times> Mind)" where
  "noteClone env m outlineKey newNote =
     (case getOutline (graph m) outlineKey of
        Some ol \<Rightarrow>
          (let (cloned, g1) = cloneNote env (graph m) ol newNote
           in Inr (cloned, m\<lparr>graph := g1\<rparr>))
      | None \<Rightarrow> Inl (MindForgerException ''Outline for given key not found!'' m))"


text \<open>\<open>Mind::noteForget\<close>: \<open>note->getOutline()\<close> is the first thing it does.\<close>

definition noteForget :: "Env \<Rightarrow> Mind \<Rightarrow> note_ptr option \<Rightarrow> fault + (outline_ptr \<times> Mind)" where
  "noteForget env m note =
     (case note of
        None \<Rightarrow> Inl NullPointerDereference
      | Some n \<Rightarrow>
          (case n_outline (note_at (graph m) n) of
             Some ol \<Rightarrow> Inr (ol, m\<lparr>graph := forgetNote env (graph m) ol n\<rparr>)
           | None \<Rightarrow>
               Inl (MindForgerException
                      ''Unable find Outline from which should be the Note deleted!'' m)))"

text \<open>
  The six moves share one shape: under \<open>if(note)\<close>, the method of the Note's Outline is
  called with the Note and the patch. \<open>moveNote\<close> is that shape, with the method as
  its first argument.
\<close>

definition moveNote ::
  "(Graph \<Rightarrow> outline_ptr \<Rightarrow> note_ptr \<Rightarrow> Patch option \<Rightarrow> Patch option \<times> Graph)
     \<Rightarrow> Mind \<Rightarrow> note_ptr option \<Rightarrow> Patch option \<Rightarrow> fault + (Patch option \<times> Mind)" where
  "moveNote method m note patch =
     (case note of
        Some n \<Rightarrow>
          (case n_outline (note_at (graph m) n) of
             None \<Rightarrow> Inl NullPointerDereference
           | Some ol \<Rightarrow>
               (let (patch1, g1) = method (graph m) ol n patch
                in Inr (patch1, m\<lparr>graph := g1\<rparr>)))
      | None \<Rightarrow> Inr (patch, m))"

definition noteUp ::
  "Env \<Rightarrow> Mind \<Rightarrow> note_ptr option \<Rightarrow> Patch option \<Rightarrow> fault + (Patch option \<times> Mind)" where
  "noteUp env m note patch = moveNote (moveNoteUp env) m note patch"

definition noteDown ::
  "Env \<Rightarrow> Mind \<Rightarrow> note_ptr option \<Rightarrow> Patch option \<Rightarrow> fault + (Patch option \<times> Mind)" where
  "noteDown env m note patch = moveNote (moveNoteDown env) m note patch"

definition noteFirst ::
  "Env \<Rightarrow> Mind \<Rightarrow> note_ptr option \<Rightarrow> Patch option \<Rightarrow> fault + (Patch option \<times> Mind)" where
  "noteFirst env m note patch = moveNote (moveNoteToFirst env) m note patch"

definition noteLast ::
  "Env \<Rightarrow> Mind \<Rightarrow> note_ptr option \<Rightarrow> Patch option \<Rightarrow> fault + (Patch option \<times> Mind)" where
  "noteLast env m note patch = moveNote (moveNoteToLast env) m note patch"

definition notePromote ::
  "Env \<Rightarrow> Mind \<Rightarrow> note_ptr option \<Rightarrow> Patch option \<Rightarrow> fault + (Patch option \<times> Mind)" where
  "notePromote env m note patch = moveNote (promoteNote env) m note patch"

definition noteDemote ::
  "Env \<Rightarrow> Mind \<Rightarrow> note_ptr option \<Rightarrow> Patch option \<Rightarrow> fault + (Patch option \<times> Mind)" where
  "noteDemote env m note patch = moveNote (demoteNote env) m note patch"

section \<open>The search as the specification words it\<close>

text \<open>
  A field matches a pattern when it contains the pattern as a contiguous run of bytes;
  in a case insensitive search both are lowercased first. A unit (the descriptor of
  an Outline, or a Note) matches when its name or one of its description blocks does.
\<close>

definition fieldMatches :: "bool \<Rightarrow> string \<Rightarrow> string \<Rightarrow> bool" where
  "fieldMatches caseInsensitive pattern field =
     (if caseInsensitive then sublist (stringToLower pattern) (stringToLower field)
      else sublist pattern field)"

definition unitMatches :: "bool \<Rightarrow> string \<Rightarrow> string \<Rightarrow> string option list \<Rightarrow> bool" where
  "unitMatches caseInsensitive pattern name description =
     (fieldMatches caseInsensitive pattern name
      \<or> list_ex (\<lambda>d. case d of None \<Rightarrow> False | Some t \<Rightarrow> fieldMatches caseInsensitive pattern t)
           description)"

text \<open>
  The search of one Outline over the Notes it scans: the Outline contributes its
  descriptor if it matches, and each scanned Note that matches follows, in the order of
  the Outline, each at most once.
\<close>

definition searchOutlineSpec ::
  "Env \<Rightarrow> Graph \<Rightarrow> bool \<Rightarrow> string \<Rightarrow> outline_ptr \<Rightarrow> note_ptr list \<Rightarrow> note_ptr list" where
  "searchOutlineSpec env g caseInsensitive pattern ol scanned =
     (if unitMatches caseInsensitive pattern (o_name (outline_at g ol)) (o_description (outline_at g ol))
      then [getOutlineDescriptorAsNote env g ol] else [])
     @ filter (\<lambda>n. unitMatches caseInsensitive pattern (n_name (note_at g n)) (n_description (note_at g n)))
         scanned"

section \<open>A small repository to run the operations on\<close>

text \<open>
  Two Outlines: \<open>Projects\<close> (at address 1) with the Notes 10, 11 (a child of 10) and 12,
  and \<open>Ideas\<close> (at address 2) with the Notes 20 (at depth 1) and 21 (at depth 0). Note 12
  was last modified at time 100.
\<close>

definition exampleNote :: "outline_ptr \<Rightarrow> string \<Rightarrow> 16 word \<Rightarrow> time \<Rightarrow> Note" where
  "exampleNote ol name depth modified =
     \<lparr>n_outline = Some ol, n_name = name, n_description = [None, Some ''More text''],
      n_type = None, n_depth = depth, n_tags = [], n_progress = 0, n_modified = modified,
      n_modifiedPretty = []\<rparr>"

definition exampleOutline :: "key \<Rightarrow> string \<Rightarrow> note_ptr list \<Rightarrow> Outline" where
  "exampleOutline k name ns =
     \<lparr>o_key = k, o_name = name, o_description = [Some ''About'', None], o_preamble = [],
      o_type = None, o_importance = 0, o_urgency = 0, o_progress = 0, o_tags = [],
      o_notes = ns, o_modified = 900\<rparr>"

definition exampleGraph :: Graph where
  "exampleGraph =
     \<lparr>outlines = [1, 2],
      outline_at = (\<lambda>p. if p = 1 then exampleOutline ''projects.md'' ''Projects'' [10, 11, 12]
                        else exampleOutline ''ideas.md'' ''Ideas'' [20, 21]),
      note_at = (\<lambda>p. if p = 10 then exampleNote 1 ''a note about x'' 0 900
                     else if p = 11 then exampleNote 1 ''Details'' 1 900
                     else if p = 12 then exampleNote 1 ''Old plan'' 0 100
                     else if p = 20 then exampleNote 2 ''Idea'' 1 900
                     else exampleNote 2 ''Second idea'' 0 900),
      next_ptr = 30\<rparr>"

text \<open>
  A \<open>Mind\<close> that is THINKING over this repository, with filled caches and the time
  scope switched on.
\<close>

definition exampleMind :: Mind where
  "exampleMind =
     \<lparr>mindState = THINKING, activeProcesses = 0, allNotesCache = [10, 11, 12, 20, 21],
      memoryDwell = [12], triples = [7], timeScopeEnabled = True, graph = exampleGraph,
      calls = []\<rparr>"

text \<open>
  Collaborators to run against: the time scope keeps what was modified at time 500 or
  later, \<open>Ai\<close> agrees to sleep, and the methods of \<open>Outline\<close> that \<open>Mind\<close> only calls
  leave the graph as it is.
\<close>

definition exampleEnv :: Env where
  "exampleEnv =
     \<lparr>ai_sleep = (\<lambda>m. True),
      ai_dream = (\<lambda>m. 1),
      memory_learn = (\<lambda>g. g),
      datetimeNow = 1000,
      datetimeToPrettyHtml = (\<lambda>t. ''today''),
      NO_PARENT = 65535,
      isOutOfScope = (\<lambda>n. n_modified n < 500),
      getOutlineDescriptorAsNote = (\<lambda>g p. 100 + p),
      createOutlineKey = (\<lambda>g name. (case name of Some s \<Rightarrow> s | None \<Rightarrow> ''outline'') @ ''.md''),
      createLimboKey = (\<lambda>g name. ''limbo/'' @ (case name of Some s \<Rightarrow> s | None \<Rightarrow> ''outline'')),
      createOutline = (\<lambda>g st. (None, g)),
      createNote = (\<lambda>st. None),
      getDefaultOutlineType = 0,
      keyNoteType = 1,
      Outline_ctor = (\<lambda>t. (exampleOutline [] [] [])\<lparr>o_type := Some t\<rparr>),
      Outline_copy = (\<lambda>g p. new_outline g (outline_at g p)),
      Outline_completeProperties = (\<lambda>t x. x),
      Note_ctor = (\<lambda>t ol. (exampleNote ol [] 0 0)\<lparr>n_type := Some t\<rparr>),
      Note_completeProperties = (\<lambda>t x. x),
      cloneNote = (\<lambda>g ol n. (None, g)),
      forgetNote = (\<lambda>g ol n. g),
      moveNoteUp = (\<lambda>g ol n p. (p, g)),
      moveNoteDown = (\<lambda>g ol n p. (p, g)),
      moveNoteToFirst = (\<lambda>g ol n p. (p, g)),
      moveNoteToLast = (\<lambda>g ol n p. (p, g)),
      promoteNote = (\<lambda>g ol n p. (p, g)),
      demoteNote = (\<lambda>g ol n p. (p, g))\<rparr>"

section \<open>Properties of the state machine\<close>

text \<open>
  C2. \<open>think\<close> on a SLEEPING mind sets the state to DREAMING and then asks \<open>Ai\<close> for the
  handle (\<open>ai->dream()\<close> sees a \<open>Mind\<close> that is already DREAMING); in any other state it
  returns a handle that is already resolved to \<open>false\<close> and the \<open>Mind\<close> is as it was.
\<close>

theorem think_from_sleeping_only:
  "think env m =
     (if mindState m = SLEEPING then
        (AiFuture (ai_dream env (m\<lparr>mindState := DREAMING\<rparr>)), m\<lparr>mindState := DREAMING\<rparr>)
      else (Resolved False, m))"
  by (simp add: think_def mindDream_def Let_def)

text \<open>
  C3. \<open>sleep\<close> returns \<open>true\<close> exactly when the state is not DREAMING, no process is
  active and \<open>ai->sleep()\<close> succeeds; then the three caches are empty, the state is
  SLEEPING and the configuration was saved in that state. In every other case it returns
  \<open>false\<close> and the \<open>Mind\<close> is as it was.
\<close>

theorem sleep_succeeds_exactly:
  "sleep env m =
     (if mindState m \<noteq> DREAMING \<and> activeProcesses m = 0 \<and> ai_sleep env m then
        (True, m\<lparr>allNotesCache := [], memoryDwell := [], triples := [], mindState := SLEEPING,
                 calls := calls m @ [ConfigSave SLEEPING]\<rparr>)
      else (False, m))"
  by (simp add: sleep_def mindSleep_def Let_def)

text \<open>
  What \<open>amnesia\<close> does when its guard holds, by the answer of \<open>ai->sleep()\<close>: Memory is
  reset in both cases, and the mind is put to sleep first only when \<open>Ai\<close> agrees.
\<close>

lemma amnesia_guard_holds:
  assumes "mindState m \<noteq> DREAMING" and "activeProcesses m = 0"
  shows "amnesia env m =
           (True, memory_amnesia (if ai_sleep env m then snd (sleep env m) else m))"
  using assms by (simp add: amnesia_def mindAmnesia_def sleep_def mindSleep_def Let_def)

lemma amnesia_guard_fails:
  assumes "mindState m = DREAMING \<or> activeProcesses m \<noteq> 0"
  shows "amnesia env m = (False, m)"
  using assms by (auto simp: amnesia_def mindAmnesia_def)

text \<open>
  C4. \<open>amnesia\<close> on a THINKING mind with no active process, while \<open>ai->sleep()\<close> returns
  \<open>false\<close>: \<open>mindAmnesia\<close> drops the result of \<open>mindSleep()\<close>, so the state stays THINKING
  and the caches keep their content, and still Memory is reset and \<open>amnesia\<close> returns
  \<open>true\<close>. The mind was not put to SLEEPING first.
\<close>

theorem amnesia_with_refusing_ai:
  "amnesia (exampleEnv\<lparr>ai_sleep := (\<lambda>m. False)\<rparr>) exampleMind =
     (True, exampleMind\<lparr>graph := exampleGraph\<lparr>outlines := []\<rparr>, calls := [MemoryAmnesia]\<rparr>)
   \<and> mindState (snd (amnesia (exampleEnv\<lparr>ai_sleep := (\<lambda>m. False)\<rparr>) exampleMind)) = THINKING
   \<and> allNotesCache (snd (amnesia (exampleEnv\<lparr>ai_sleep := (\<lambda>m. False)\<rparr>) exampleMind))
       = [10, 11, 12, 20, 21]
   \<and> memoryDwell (snd (amnesia (exampleEnv\<lparr>ai_sleep := (\<lambda>m. False)\<rparr>) exampleMind)) = [12]
   \<and> triples (snd (amnesia (exampleEnv\<lparr>ai_sleep := (\<lambda>m. False)\<rparr>) exampleMind)) = [7]"
  by (simp add: amnesia_def mindAmnesia_def mindSleep_def memory_amnesia_def exampleMind_def
        exampleEnv_def Let_def)

section \<open>Properties of the search\<close>

lemma string_find_None: "(string_find s r = None) = (\<not> sublist r s)"
  by (induction s) (auto simp: sublist_Cons_right)

lemma descriptionFindLower_list_ex:
  "descriptionFindLower (stringToLower p) ds =
     list_ex (\<lambda>d. case d of None \<Rightarrow> False | Some t \<Rightarrow> fieldMatches True p t) ds"
proof (induction ds)
  case Nil
  show ?case by simp
next
  case (Cons d ds)
  then show ?case
    by (cases d) (simp_all add: string_find_None fieldMatches_def)
qed

lemma descriptionFind_list_ex:
  "descriptionFind p ds =
     list_ex (\<lambda>d. case d of None \<Rightarrow> False | Some t \<Rightarrow> fieldMatches False p t) ds"
proof (induction ds)
  case Nil
  show ?case by simp
next
  case (Cons d ds)
  then show ?case
    by (cases d) (simp_all add: string_find_None fieldMatches_def)
qed

lemma notesFtsIgnoreCase_filter:
  "notesFtsIgnoreCase env m (stringToLower p) result ns =
     result @ filter (\<lambda>n. \<not> (timeScopeEnabled m \<and> isOutOfScope env (note_at (graph m) n))
                          \<and> unitMatches True p (n_name (note_at (graph m) n))
                               (n_description (note_at (graph m) n))) ns"
  by (induction ns arbitrary: result)
     (simp_all add: string_find_None descriptionFindLower_list_ex unitMatches_def fieldMatches_def)

lemma notesFtsCaseSensitive_filter:
  "notesFtsCaseSensitive m p result ns =
     result @ filter (\<lambda>n. unitMatches False p (n_name (note_at (graph m) n))
                               (n_description (note_at (graph m) n))) ns"
  by (induction ns arbitrary: result)
     (simp_all add: string_find_None descriptionFind_list_ex unitMatches_def fieldMatches_def)

text \<open>The Notes of an Outline that the search scans.\<close>

lemma findNoteFtsOutline_refines:
  "findNoteFtsOutline env m result (if ci then stringToLower pattern else pattern) ci ol =
     result @ searchOutlineSpec env (graph m) ci pattern ol
                (filter (\<lambda>n. \<not> (ci \<and> timeScopeEnabled m \<and> isOutOfScope env (note_at (graph m) n)))
                   (o_notes (outline_at (graph m) ol)))"
  by (simp add: findNoteFtsOutline_def Let_def notesFtsIgnoreCase_filter
        notesFtsCaseSensitive_filter searchOutlineSpec_def string_find_None
        descriptionFindLower_list_ex descriptionFind_list_ex unitMatches_def fieldMatches_def)

lemma findNoteFtsOutlines_refines:
  "findNoteFtsOutlines env m result (if ci then stringToLower pattern else pattern) ci ols =
     result @ concat (map (\<lambda>ol. searchOutlineSpec env (graph m) ci pattern ol
                (filter (\<lambda>n. \<not> (ci \<and> timeScopeEnabled m \<and> isOutOfScope env (note_at (graph m) n)))
                   (o_notes (outline_at (graph m) ol)))) ols)"
  by (induction ols arbitrary: result) (simp_all add: findNoteFtsOutline_refines del: if_split)

lemma findNoteFts_refines:
  "fst (findNoteFts env m pattern ci scope) =
     concat (map (\<lambda>ol. searchOutlineSpec env (graph m) ci pattern ol
                (filter (\<lambda>n. \<not> (ci \<and> timeScopeEnabled m \<and> isOutOfScope env (note_at (graph m) n)))
                   (o_notes (outline_at (graph m) ol))))
        (case scope of Some sc \<Rightarrow> [sc] | None \<Rightarrow> outlines (graph m)))"
proof -
  have r: "(if ci then stringToLower pattern else [] @ pattern)
             = (if ci then stringToLower pattern else pattern)"
    by simp
  show ?thesis
    unfolding findNoteFts_def Let_def r
    using findNoteFtsOutline_refines [of env _ "[]" ci pattern]
      findNoteFtsOutlines_refines [of env _ "[]" ci pattern]
    by (cases scope) simp_all
qed

text \<open>
  C5. A case sensitive search with the time scope enabled: Note 12 (\<open>Old plan\<close>) is out
  of scope, and the search for \<open>plan\<close> in its Outline returns it. The loop of the case
  sensitive branch does not ask the time scope aspect; the case insensitive branch does,
  and the same search there skips the Note.
\<close>

theorem findNoteFts_case_sensitive_ignores_time_scope:
  "timeScopeEnabled exampleMind
   \<and> isOutOfScope exampleEnv (note_at (graph exampleMind) 12)
   \<and> fst (findNoteFts exampleEnv exampleMind ''plan'' False (Some 1)) = [12]
   \<and> fst (findNoteFts exampleEnv exampleMind ''plan'' True (Some 1)) = []"
  by code_simp

text \<open>
  C7. The result of a search is, Outline by Outline, the descriptor of the Outline if
  it matches and then the scanned Notes that match, where a field matches when it
  contains the pattern, both lowercased in a case insensitive search and both as they
  are in a case sensitive one. The case insensitive search for \<open>Note\<close> finds the Note
  named \<open>a note about x\<close>; the case sensitive search for \<open>Note\<close> does not.
\<close>

theorem findNoteFts_case_modes:
  "fst (findNoteFts env m pattern caseInsensitive scope) =
     concat (map (\<lambda>ol. searchOutlineSpec env (graph m) caseInsensitive pattern ol
                (filter (\<lambda>n. \<not> (caseInsensitive \<and> timeScopeEnabled m
                                    \<and> isOutOfScope env (note_at (graph m) n)))
                   (o_notes (outline_at (graph m) ol))))
        (case scope of Some sc \<Rightarrow> [sc] | None \<Rightarrow> outlines (graph m)))
   \<and> fieldMatches True ''Note'' ''a note about x''
   \<and> \<not> fieldMatches False ''Note'' ''a note about x''
   \<and> n_name (note_at (graph exampleMind) 10) = ''a note about x''
   \<and> fst (findNoteFts exampleEnv exampleMind ''Note'' True None) = [10]
   \<and> fst (findNoteFts exampleEnv exampleMind ''Note'' False None) = []"
proof (intro conjI)
  show "fst (findNoteFts env m pattern caseInsensitive scope) =
     concat (map (\<lambda>ol. searchOutlineSpec env (graph m) caseInsensitive pattern ol
                (filter (\<lambda>n. \<not> (caseInsensitive \<and> timeScopeEnabled m
                                    \<and> isOutOfScope env (note_at (graph m) n)))
                   (o_notes (outline_at (graph m) ol))))
        (case scope of Some sc \<Rightarrow> [sc] | None \<Rightarrow> outlines (graph m)))"
    by (rule findNoteFts_refines)
  show "fieldMatches True ''Note'' ''a note about x''" by code_simp
  show "\<not> fieldMatches False ''Note'' ''a note about x''" by code_simp
  show "n_name (note_at (graph exampleMind) 10) = ''a note about x''" by code_simp
  show "fst (findNoteFts exampleEnv exampleMind ''Note'' True None) = [10]" by code_simp
  show "fst (findNoteFts exampleEnv exampleMind ''Note'' False None) = []" by code_simp
qed

text \<open>
  C9. The public search leaves the \<open>Mind\<close> with an empty all-notes cache, whatever the
  cache held and whatever is searched; nothing else of the \<open>Mind\<close> changes.
\<close>

theorem findNoteFts_clears_allNotesCache:
  "snd (findNoteFts env m regexp ignoreCase scope) = m\<lparr>allNotesCache := []\<rparr>"
  by (cases scope) (simp_all add: findNoteFts_def Let_def)


section \<open>Properties of the structural operations\<close>

lemma update_note_twice:
  "update_note (update_note g p f) p h = update_note g p (\<lambda>x. h (f x))"
  by (simp add: update_note_def)

lemma update_note_option:
  "(case v of Some s \<Rightarrow> update_note g p (f s) | None \<Rightarrow> g)
     = update_note g p (\<lambda>x. case v of Some s \<Rightarrow> f s x | None \<Rightarrow> x)"
  by (cases v) (simp_all add: update_note_def)

text \<open>
  \<open>noteNew\<close> on a key that Memory holds: the new Note gets the next free address, the
  setters are applied to it in the order of the code, and it is added to the Outline.
\<close>

lemma noteNew_present:
  assumes "getOutline (graph m) outlineKey = Some ol"
  shows "noteNew env m outlineKey offset name noteType depth tags progress noteStencil =
     Inr (next_ptr (graph m),
          m\<lparr>graph :=
              addNote
                (update_note
                   (snd (new_note (graph m)
                      (case createNote env noteStencil of
                         Some v \<Rightarrow> v
                       | None \<Rightarrow> Note_ctor env (keyNoteType env) ol)))
                   (next_ptr (graph m))
                   (\<lambda>x0.
                      let x1 = x0\<lparr>n_outline := Some ol\<rparr>;
                          x2 = (case name of Some s \<Rightarrow> x1\<lparr>n_name := s\<rparr> | None \<Rightarrow> x1);
                          x3 = x2\<lparr>n_modified := datetimeNow env\<rparr>;
                          x4 = x3\<lparr>n_modifiedPretty := datetimeToPrettyHtml env (n_modified x3)\<rparr>;
                          x5 = (case noteType of Some t \<Rightarrow> x4\<lparr>n_type := Some t\<rparr> | None \<Rightarrow> x4);
                          x6 = x5\<lparr>n_depth := depth\<rparr>;
                          x7 = (case tags of Some ts \<Rightarrow> x6\<lparr>n_tags := ts\<rparr> | None \<Rightarrow> x6);
                          x8 = x7\<lparr>n_progress := progress\<rparr>
                      in Note_completeProperties env (n_modified x8) x8))
                ol (next_ptr (graph m))
                (if NO_PARENT env = uint offset then 0 else unat offset)\<rparr>)"
proof -
  have fresh: "(case createNote env noteStencil of
                  Some v \<Rightarrow> new_note (graph m) v
                | None \<Rightarrow> new_note (graph m) (Note_ctor env (keyNoteType env) ol))
               = (next_ptr (graph m),
                  snd (new_note (graph m)
                        (case createNote env noteStencil of
                           Some v \<Rightarrow> v
                         | None \<Rightarrow> Note_ctor env (keyNoteType env) ol)))"
    by (cases "createNote env noteStencil") (simp_all add: new_note_def)
  show ?thesis
    unfolding noteNew_def assms option.case fresh prod.case Let_def
      update_note_option update_note_twice
    by simp
qed

lemma noteNew_absent:
  assumes "getOutline (graph m) outlineKey = None"
  shows "noteNew env m outlineKey offset name noteType depth tags progress noteStencil =
           Inl (MindForgerException ''Outline for given key not found!'' m)"
  using assms by (simp add: noteNew_def)

text \<open>
  C8. \<open>noteNew\<close> with a key that Memory does not hold throws the exception "Outline for
  given key not found!" in the \<open>Mind\<close> as it was: no Note was created and no Outline
  changed. With a key that Memory holds, it returns the address of a new Note and the
  next free address moves on by one. The Note is built from what \<open>memory.createNote\<close>
  made of the stencil, or else from the constructor with the key note type: its Outline,
  name, time of modification, type, depth, tags and progress are set as given (name,
  type and tags only when given), its other content stays, and \<open>completeProperties\<close> is
  applied last. The Note stands in the Note sequence of that Outline at the offset (at
  0 when the offset is \<open>NO_PARENT\<close>). No other Note, nothing else of the Outline, no
  other Outline and nothing else of the \<open>Mind\<close> changes.
\<close>

theorem noteNew_not_found_or_inserted:
  "(getOutline (graph m) outlineKey = None \<longrightarrow>
      noteNew env m outlineKey offset name noteType depth tags progress noteStencil
        = Inl (MindForgerException ''Outline for given key not found!'' m))
   \<and> (\<forall>ol. getOutline (graph m) outlineKey = Some ol \<longrightarrow>
        (let b = (case createNote env noteStencil of
                    Some v \<Rightarrow> v
                  | None \<Rightarrow> Note_ctor env (keyNoteType env) ol);
             pos = (if NO_PARENT env = uint offset then 0 else unat offset)
         in \<exists>m'.
            noteNew env m outlineKey offset name noteType depth tags progress noteStencil
              = Inr (next_ptr (graph m), m')
          \<and> next_ptr (graph m') = Suc (next_ptr (graph m))
          \<and> note_at (graph m')
              = (note_at (graph m))
                  (next_ptr (graph m) :=
                     Note_completeProperties env (datetimeNow env)
                       (b\<lparr>n_outline := Some ol,
                          n_name := (case name of Some s \<Rightarrow> s | None \<Rightarrow> n_name b),
                          n_modified := datetimeNow env,
                          n_modifiedPretty := datetimeToPrettyHtml env (datetimeNow env),
                          n_type := (case noteType of Some t \<Rightarrow> Some t | None \<Rightarrow> n_type b),
                          n_depth := depth,
                          n_tags := (case tags of Some ts \<Rightarrow> ts | None \<Rightarrow> n_tags b),
                          n_progress := progress\<rparr>))
          \<and> outline_at (graph m')
              = (outline_at (graph m))
                  (ol := (outline_at (graph m) ol)
                     \<lparr>o_notes := take pos (o_notes (outline_at (graph m) ol))
                                 @ [next_ptr (graph m)]
                                 @ drop pos (o_notes (outline_at (graph m) ol))\<rparr>)
          \<and> outlines (graph m') = outlines (graph m)
          \<and> m'\<lparr>graph := graph m\<rparr> = m))"
proof (intro conjI impI allI)
  assume "getOutline (graph m) outlineKey = None"
  then show "noteNew env m outlineKey offset name noteType depth tags progress noteStencil
        = Inl (MindForgerException ''Outline for given key not found!'' m)"
    by (rule noteNew_absent)
next
  fix ol
  assume present: "getOutline (graph m) outlineKey = Some ol"
  define b where "b = (case createNote env noteStencil of
                         Some v \<Rightarrow> v
                       | None \<Rightarrow> Note_ctor env (keyNoteType env) ol)"
  define pos where "pos = (if NO_PARENT env = uint offset then 0 else unat offset)"
  define F where
    "F = (\<lambda>x0.
            let x1 = x0\<lparr>n_outline := Some ol\<rparr>;
                x2 = (case name of Some s \<Rightarrow> x1\<lparr>n_name := s\<rparr> | None \<Rightarrow> x1);
                x3 = x2\<lparr>n_modified := datetimeNow env\<rparr>;
                x4 = x3\<lparr>n_modifiedPretty := datetimeToPrettyHtml env (n_modified x3)\<rparr>;
                x5 = (case noteType of Some t \<Rightarrow> x4\<lparr>n_type := Some t\<rparr> | None \<Rightarrow> x4);
                x6 = x5\<lparr>n_depth := depth\<rparr>;
                x7 = (case tags of Some ts \<Rightarrow> x6\<lparr>n_tags := ts\<rparr> | None \<Rightarrow> x6);
                x8 = x7\<lparr>n_progress := progress\<rparr>
            in Note_completeProperties env (n_modified x8) x8)"
  define built where
    "built = b\<lparr>n_outline := Some ol,
               n_name := (case name of Some s \<Rightarrow> s | None \<Rightarrow> n_name b),
               n_modified := datetimeNow env,
               n_modifiedPretty := datetimeToPrettyHtml env (datetimeNow env),
               n_type := (case noteType of Some t \<Rightarrow> Some t | None \<Rightarrow> n_type b),
               n_depth := depth,
               n_tags := (case tags of Some ts \<Rightarrow> ts | None \<Rightarrow> n_tags b),
               n_progress := progress\<rparr>"
  define m' where
    "m' = m\<lparr>graph := addNote (update_note (snd (new_note (graph m) b)) (next_ptr (graph m)) F)
                          ol (next_ptr (graph m)) pos\<rparr>"
  have chain: "(let x1 = b\<lparr>n_outline := Some ol\<rparr>;
                    x2 = (case name of Some s \<Rightarrow> x1\<lparr>n_name := s\<rparr> | None \<Rightarrow> x1);
                    x3 = x2\<lparr>n_modified := datetimeNow env\<rparr>;
                    x4 = x3\<lparr>n_modifiedPretty := datetimeToPrettyHtml env (n_modified x3)\<rparr>;
                    x5 = (case noteType of Some t \<Rightarrow> x4\<lparr>n_type := Some t\<rparr> | None \<Rightarrow> x4);
                    x6 = x5\<lparr>n_depth := depth\<rparr>;
                    x7 = (case tags of Some ts \<Rightarrow> x6\<lparr>n_tags := ts\<rparr> | None \<Rightarrow> x6)
                in x7\<lparr>n_progress := progress\<rparr>) = built"
    unfolding built_def Let_def
    by (cases name; cases noteType; cases tags) (simp_all add: Note.equality)
  have Fb: "F b = Note_completeProperties env (datetimeNow env) built"
  proof -
    have "F b = Note_completeProperties env (n_modified built) built"
      unfolding F_def chain [symmetric] Let_def ..
    moreover have "n_modified built = datetimeNow env"
      by (simp add: built_def)
    ultimately show ?thesis by simp
  qed
  have run: "noteNew env m outlineKey offset name noteType depth tags progress noteStencil
               = Inr (next_ptr (graph m), m')"
    unfolding m'_def F_def b_def pos_def by (rule noteNew_present [OF present])
  have fresh: "next_ptr (graph m') = Suc (next_ptr (graph m))"
    by (simp add: m'_def addNote_def update_outline_def update_note_def new_note_def)
  have store: "note_at (graph m')
      = (note_at (graph m))(next_ptr (graph m) := Note_completeProperties env (datetimeNow env) built)"
    by (simp add: m'_def addNote_def update_outline_def update_note_def new_note_def Fb)
  have seq: "outline_at (graph m')
      = (outline_at (graph m))
          (ol := (outline_at (graph m) ol)
             \<lparr>o_notes := take pos (o_notes (outline_at (graph m) ol))
                         @ [next_ptr (graph m)]
                         @ drop pos (o_notes (outline_at (graph m) ol))\<rparr>)"
    by (simp add: m'_def addNote_def update_outline_def update_note_def new_note_def)
  have rest: "outlines (graph m') = outlines (graph m)" "m'\<lparr>graph := graph m\<rparr> = m"
    by (simp_all add: m'_def addNote_def update_outline_def update_note_def new_note_def)
  show "let b = (case createNote env noteStencil of
                    Some v \<Rightarrow> v
                  | None \<Rightarrow> Note_ctor env (keyNoteType env) ol);
             pos = (if NO_PARENT env = uint offset then 0 else unat offset)
         in \<exists>m'.
            noteNew env m outlineKey offset name noteType depth tags progress noteStencil
              = Inr (next_ptr (graph m), m')
          \<and> next_ptr (graph m') = Suc (next_ptr (graph m))
          \<and> note_at (graph m')
              = (note_at (graph m))
                  (next_ptr (graph m) :=
                     Note_completeProperties env (datetimeNow env)
                       (b\<lparr>n_outline := Some ol,
                          n_name := (case name of Some s \<Rightarrow> s | None \<Rightarrow> n_name b),
                          n_modified := datetimeNow env,
                          n_modifiedPretty := datetimeToPrettyHtml env (datetimeNow env),
                          n_type := (case noteType of Some t \<Rightarrow> Some t | None \<Rightarrow> n_type b),
                          n_depth := depth,
                          n_tags := (case tags of Some ts \<Rightarrow> ts | None \<Rightarrow> n_tags b),
                          n_progress := progress\<rparr>))
          \<and> outline_at (graph m')
              = (outline_at (graph m))
                  (ol := (outline_at (graph m) ol)
                     \<lparr>o_notes := take pos (o_notes (outline_at (graph m) ol))
                                 @ [next_ptr (graph m)]
                                 @ drop pos (o_notes (outline_at (graph m) ol))\<rparr>)
          \<and> outlines (graph m') = outlines (graph m)
          \<and> m'\<lparr>graph := graph m\<rparr> = m"
    unfolding Let_def
    using run fresh store [unfolded built_def b_def] seq [unfolded pos_def] rest
    by blast
qed

text \<open>
  The theorem at work on the small repository: the key \<open>nowhere.md\<close> is not in
  Memory, the key \<open>ideas.md\<close> is, and the new Note, built by the constructor with the
  key note type and named \<open>New\<close>, goes to offset 1 of \<open>Ideas\<close>.
\<close>

theorem noteNew_not_found_or_inserted_witness:
  "noteNew exampleEnv exampleMind ''nowhere.md'' 1 (Some ''New'') None 0 None 0 None
     = Inl (MindForgerException ''Outline for given key not found!'' exampleMind)
   \<and> (\<exists>m'. noteNew exampleEnv exampleMind ''ideas.md'' 1 (Some ''New'') None 0 None 0 None
               = Inr (30, m')
          \<and> next_ptr (graph m') = 31
          \<and> note_at (graph m') 30
              = \<lparr>n_outline = Some 2, n_name = ''New'', n_description = [None, Some ''More text''],
                 n_type = Some 1, n_depth = 0, n_tags = [], n_progress = 0, n_modified = 1000,
                 n_modifiedPretty = ''today''\<rparr>
          \<and> note_at (graph m') 20 = note_at (graph exampleMind) 20
          \<and> o_notes (outline_at (graph m') 2) = [20, 30, 21]
          \<and> o_notes (outline_at (graph m') 1) = [10, 11, 12])"
proof -
  have absent: "getOutline (graph exampleMind) ''nowhere.md'' = None"
    by code_simp
  have present: "getOutline (graph exampleMind) ''ideas.md'' = Some 2"
    by code_simp
  have fresh: "next_ptr (graph exampleMind) = 30"
    by (simp add: exampleMind_def exampleGraph_def)
  have old: "o_notes (outline_at (graph exampleMind) 2) = [20, 21]"
    "o_notes (outline_at (graph exampleMind) 1) = [10, 11, 12]"
    by (simp_all add: exampleMind_def exampleGraph_def exampleOutline_def)
  have pos: "(if NO_PARENT exampleEnv = uint (1 :: 16 word) then 0 else unat (1 :: 16 word)) = 1"
    by (simp add: exampleEnv_def)
  have b: "(case createNote exampleEnv None of
              Some v \<Rightarrow> v
            | None \<Rightarrow> Note_ctor exampleEnv (keyNoteType exampleEnv) 2)
           = \<lparr>n_outline = Some 2, n_name = [], n_description = [None, Some ''More text''],
              n_type = Some 1, n_depth = 0, n_tags = [], n_progress = 0, n_modified = 0,
              n_modifiedPretty = []\<rparr>"
    by (simp add: exampleEnv_def exampleNote_def)
  have env: "datetimeNow exampleEnv = 1000" "datetimeToPrettyHtml exampleEnv 1000 = ''today''"
    "Note_completeProperties exampleEnv = (\<lambda>t x. x)"
    by (simp_all add: exampleEnv_def)
  have a: "noteNew exampleEnv exampleMind ''nowhere.md'' 1 (Some ''New'') None 0 None 0 None
             = Inl (MindForgerException ''Outline for given key not found!'' exampleMind)"
    using noteNew_not_found_or_inserted
      [where m = exampleMind and outlineKey = "''nowhere.md''" and env = exampleEnv
         and offset = 1 and name = "Some ''New''" and noteType = None and depth = 0
         and tags = None and progress = 0 and noteStencil = None]
      absent
    by blast
  have "\<exists>m'. noteNew exampleEnv exampleMind ''ideas.md'' 1 (Some ''New'') None 0 None 0 None
               = Inr (30, m')
          \<and> next_ptr (graph m') = 31
          \<and> note_at (graph m')
              = (note_at (graph exampleMind))
                  (30 := \<lparr>n_outline = Some 2, n_name = ''New'',
                          n_description = [None, Some ''More text''],
                          n_type = Some 1, n_depth = 0, n_tags = [], n_progress = 0,
                          n_modified = 1000, n_modifiedPretty = ''today''\<rparr>)
          \<and> outline_at (graph m')
              = (outline_at (graph exampleMind))
                  (2 := (outline_at (graph exampleMind) 2)\<lparr>o_notes := [20, 30, 21]\<rparr>)"
    using noteNew_not_found_or_inserted
      [where m = exampleMind and outlineKey = "''ideas.md''" and env = exampleEnv
         and offset = 1 and name = "Some ''New''" and noteType = None and depth = 0
         and tags = None and progress = 0 and noteStencil = None,
       THEN conjunct2, rule_format, OF present]
    unfolding Let_def b pos fresh old env
    by simp blast
  then obtain m' where
    r: "noteNew exampleEnv exampleMind ''ideas.md'' 1 (Some ''New'') None 0 None 0 None = Inr (30, m')"
    and f: "next_ptr (graph m') = 31"
    and s: "note_at (graph m')
              = (note_at (graph exampleMind))
                  (30 := \<lparr>n_outline = Some 2, n_name = ''New'',
                          n_description = [None, Some ''More text''],
                          n_type = Some 1, n_depth = 0, n_tags = [], n_progress = 0,
                          n_modified = 1000, n_modifiedPretty = ''today''\<rparr>)"
    and q: "outline_at (graph m')
              = (outline_at (graph exampleMind))
                  (2 := (outline_at (graph exampleMind) 2)\<lparr>o_notes := [20, 30, 21]\<rparr>)"
    by blast
  have "note_at (graph m') 30
              = \<lparr>n_outline = Some 2, n_name = ''New'', n_description = [None, Some ''More text''],
                 n_type = Some 1, n_depth = 0, n_tags = [], n_progress = 0, n_modified = 1000,
                 n_modifiedPretty = ''today''\<rparr>"
    "note_at (graph m') 20 = note_at (graph exampleMind) 20"
    "o_notes (outline_at (graph m') 2) = [20, 30, 21]"
    "o_notes (outline_at (graph m') 1) = o_notes (outline_at (graph exampleMind) 1)"
    unfolding s q by simp_all
  with r f old(2) have
    "\<exists>m'. noteNew exampleEnv exampleMind ''ideas.md'' 1 (Some ''New'') None 0 None 0 None
               = Inr (30, m')
          \<and> next_ptr (graph m') = 31
          \<and> note_at (graph m') 30
              = \<lparr>n_outline = Some 2, n_name = ''New'', n_description = [None, Some ''More text''],
                 n_type = Some 1, n_depth = 0, n_tags = [], n_progress = 0, n_modified = 1000,
                 n_modifiedPretty = ''today''\<rparr>
          \<and> note_at (graph m') 20 = note_at (graph exampleMind) 20
          \<and> o_notes (outline_at (graph m') 2) = [20, 30, 21]
          \<and> o_notes (outline_at (graph m') 1) = [10, 11, 12]"
    by auto
  with a show ?thesis ..
qed

text \<open>
  C10. \<open>noteForget\<close> ends in the dereference of a null pointer exactly when its Note is
  the null pointer: it calls \<open>note->getOutline()\<close> with no test. The six moves test
  \<open>if(note)\<close>: with the null pointer they return with the patch and the \<open>Mind\<close> as they
  were.
\<close>

theorem noteForget_null_faults_moves_are_noops:
  "(noteForget env m note = Inl NullPointerDereference) = (note = None)
   \<and> noteUp env m None patch = Inr (patch, m)
   \<and> noteDown env m None patch = Inr (patch, m)
   \<and> noteFirst env m None patch = Inr (patch, m)
   \<and> noteLast env m None patch = Inr (patch, m)
   \<and> notePromote env m None patch = Inr (patch, m)
   \<and> noteDemote env m None patch = Inr (patch, m)"
  by (simp add: noteForget_def noteUp_def noteDown_def noteFirst_def noteLast_def
        notePromote_def noteDemote_def moveNote_def split: option.split)

section \<open>The all-notes cache under the operations\<close>

lemma outlineNew_allNotesCache:
  assumes "outlineNew env m name outlineType importance urgency progress tags preamble stencil
             = Inr (k, m')"
  shows "allNotesCache m' = []"
proof -
  have "\<exists>x. m' = onRemembering x"
    using assms unfolding outlineNew_def Let_def
    by (auto split: sum.splits prod.splits)
  then show ?thesis by (auto simp: onRemembering_def)
qed

lemma outlineClone_allNotesCache:
  assumes "outlineClone env m outlineKey = (Some c, m')"
  shows "allNotesCache m' = []"
  using assms unfolding outlineClone_def Let_def
  by (auto simp: onRemembering_def split: option.splits prod.splits)

lemma noteNew_frame:
  assumes "noteNew env m outlineKey offset name noteType depth tags progress noteStencil = Inr (n, m')"
  shows "m'\<lparr>graph := graph m\<rparr> = m"
proof (cases "getOutline (graph m) outlineKey")
  case None
  with assms show ?thesis by (simp add: noteNew_def)
next
  case (Some ol)
  have "\<exists>g. m' = m\<lparr>graph := g\<rparr>"
    using assms unfolding noteNew_present [OF Some] by auto
  then show ?thesis by auto
qed

lemma noteClone_frame:
  assumes "noteClone env m outlineKey newNote = Inr (c, m')"
  shows "m'\<lparr>graph := graph m\<rparr> = m"
  using assms unfolding noteClone_def Let_def
  by (auto split: option.splits prod.splits)

lemma noteForget_frame:
  assumes "noteForget env m note = Inr (ol, m')"
  shows "m'\<lparr>graph := graph m\<rparr> = m"
  using assms unfolding noteForget_def
  by (auto split: option.splits)

lemma outlineForget_allNotesCache:
  "allNotesCache (snd (outlineForget env m outlineKey)) = allNotesCache m"
  unfolding outlineForget_def Let_def
  by (auto simp: memory_forget_def split: option.splits)

lemma moveNote_frame:
  assumes "moveNote method m note patch = Inr (p, m')"
  shows "m'\<lparr>graph := graph m\<rparr> = m"
  using assms unfolding moveNote_def
  by (auto split: option.splits prod.splits)

lemma frame_allNotesCache:
  assumes "m'\<lparr>graph := graph m\<rparr> = m"
  shows "allNotesCache m' = allNotesCache m"
proof -
  have "allNotesCache (m'\<lparr>graph := graph m\<rparr>) = allNotesCache m'" by simp
  with assms show ?thesis by simp
qed

text \<open>
  C1, as the claim states it, fails: \<open>noteNew\<close> adds a Note to \<open>Ideas\<close> and the all-notes
  cache still holds the five Notes it held before.
\<close>

theorem noteNew_keeps_allNotesCache:
  "\<not> isl (noteNew exampleEnv exampleMind ''ideas.md'' 1 (Some ''New'') None 0 None 0 None)
   \<and> allNotesCache (snd (projr
        (noteNew exampleEnv exampleMind ''ideas.md'' 1 (Some ''New'') None 0 None 0 None)))
       = [10, 11, 12, 20, 21]"
  by code_simp

text \<open>
  C1, amended. The operations that call \<open>onRemembering\<close> leave the all-notes cache
  empty: \<open>outlineNew\<close> when it returns, and \<open>outlineClone\<close> when it finds the Outline.
  \<open>noteNew\<close>, \<open>noteClone\<close>, \<open>noteForget\<close>, \<open>outlineForget\<close> and the six moves do not touch
  the all-notes cache: after them it holds what it held before.
\<close>

theorem allNotesCache_after_operations:
  "(\<forall>k m'. outlineNew env m name outlineType importance urgency progress tags preamble stencil
              = Inr (k, m') \<longrightarrow> allNotesCache m' = [])
   \<and> (\<forall>c m'. outlineClone env m outlineKey = (Some c, m') \<longrightarrow> allNotesCache m' = [])
   \<and> (\<forall>n m'. noteNew env m outlineKey offset noteName noteType depth noteTags noteProgress noteStencil
                = Inr (n, m') \<longrightarrow> allNotesCache m' = allNotesCache m)
   \<and> (\<forall>c m'. noteClone env m outlineKey newNote = Inr (c, m') \<longrightarrow> allNotesCache m' = allNotesCache m)
   \<and> (\<forall>ol m'. noteForget env m aNote = Inr (ol, m') \<longrightarrow> allNotesCache m' = allNotesCache m)
   \<and> allNotesCache (snd (outlineForget env m outlineKey)) = allNotesCache m
   \<and> (\<forall>p m'. noteUp env m aNote patch = Inr (p, m') \<longrightarrow> allNotesCache m' = allNotesCache m)
   \<and> (\<forall>p m'. noteDown env m aNote patch = Inr (p, m') \<longrightarrow> allNotesCache m' = allNotesCache m)
   \<and> (\<forall>p m'. noteFirst env m aNote patch = Inr (p, m') \<longrightarrow> allNotesCache m' = allNotesCache m)
   \<and> (\<forall>p m'. noteLast env m aNote patch = Inr (p, m') \<longrightarrow> allNotesCache m' = allNotesCache m)
   \<and> (\<forall>p m'. notePromote env m aNote patch = Inr (p, m') \<longrightarrow> allNotesCache m' = allNotesCache m)
   \<and> (\<forall>p m'. noteDemote env m aNote patch = Inr (p, m') \<longrightarrow> allNotesCache m' = allNotesCache m)"
  unfolding noteUp_def noteDown_def noteFirst_def noteLast_def notePromote_def noteDemote_def
  by (intro conjI allI impI)
     (erule outlineNew_allNotesCache outlineClone_allNotesCache
        noteNew_frame [THEN frame_allNotesCache] noteClone_frame [THEN frame_allNotesCache]
        noteForget_frame [THEN frame_allNotesCache] moveNote_frame [THEN frame_allNotesCache]
      | rule outlineForget_allNotesCache)+

text \<open>
  The theorem at work on the small repository, whose all-notes cache holds five Notes:
  a new Outline and a clone of \<open>Ideas\<close> empty the cache; a new Note, the forgetting of
  Note 12, the forgetting of \<open>Ideas\<close> and a move of Note 11 leave the five in it.
\<close>

theorem allNotesCache_after_operations_witness:
  "allNotesCache (snd (projr
       (outlineNew exampleEnv exampleMind (Some ''Travel'') None 0 0 0 None None None))) = []
   \<and> allNotesCache (snd (outlineClone exampleEnv exampleMind ''ideas.md'')) = []
   \<and> allNotesCache (snd (projr
       (noteNew exampleEnv exampleMind ''ideas.md'' 1 (Some ''New'') None 0 None 0 None)))
       = [10, 11, 12, 20, 21]
   \<and> allNotesCache (snd (projr (noteClone exampleEnv exampleMind ''ideas.md'' (Some 20))))
       = [10, 11, 12, 20, 21]
   \<and> allNotesCache (snd (projr (noteForget exampleEnv exampleMind (Some 12)))) = [10, 11, 12, 20, 21]
   \<and> allNotesCache (snd (outlineForget exampleEnv exampleMind ''ideas.md'')) = [10, 11, 12, 20, 21]
   \<and> allNotesCache (snd (projr (noteUp exampleEnv exampleMind (Some 11) None))) = [10, 11, 12, 20, 21]
   \<and> allNotesCache (snd (projr (noteDown exampleEnv exampleMind (Some 11) None))) = [10, 11, 12, 20, 21]
   \<and> allNotesCache (snd (projr (noteFirst exampleEnv exampleMind (Some 11) None))) = [10, 11, 12, 20, 21]
   \<and> allNotesCache (snd (projr (noteLast exampleEnv exampleMind (Some 11) None))) = [10, 11, 12, 20, 21]
   \<and> allNotesCache (snd (projr (notePromote exampleEnv exampleMind (Some 11) None))) = [10, 11, 12, 20, 21]
   \<and> allNotesCache (snd (projr (noteDemote exampleEnv exampleMind (Some 11) None))) = [10, 11, 12, 20, 21]"
proof -
  note t = allNotesCache_after_operations
    [where env = exampleEnv and m = exampleMind and name = "Some ''Travel''"
       and outlineType = None and importance = 0 and urgency = 0 and progress = 0
       and tags = None and preamble = None and stencil = None and outlineKey = "''ideas.md''"
       and offset = 1 and noteName = "Some ''New''" and noteType = None and depth = 0
       and noteTags = None and noteProgress = 0 and noteStencil = None]
  have cache: "allNotesCache exampleMind = [10, 11, 12, 20, 21]"
    by (simp add: exampleMind_def)
  have r: "\<And>x. \<not> isl x \<Longrightarrow> x = Inr (fst (projr x), snd (projr x))"
    by (case_tac x) simp_all
  have c: "\<And>x. fst x \<noteq> None \<Longrightarrow> x = (Some (the (fst x)), snd x)"
    by (case_tac x) auto
  have "\<not> isl (outlineNew exampleEnv exampleMind (Some ''Travel'') None 0 0 0 None None None)"
    by code_simp
  from t [THEN conjunct1, rule_format, OF r [OF this]]
  have 1: "allNotesCache (snd (projr
       (outlineNew exampleEnv exampleMind (Some ''Travel'') None 0 0 0 None None None))) = []" .
  have "fst (outlineClone exampleEnv exampleMind ''ideas.md'') \<noteq> None"
    by code_simp
  from t [THEN conjunct2, THEN conjunct1, rule_format, OF c [OF this]]
  have 2: "allNotesCache (snd (outlineClone exampleEnv exampleMind ''ideas.md'')) = []" .
  have "\<not> isl (noteNew exampleEnv exampleMind ''ideas.md'' 1 (Some ''New'') None 0 None 0 None)"
    by code_simp
  from t [THEN conjunct2, THEN conjunct2, THEN conjunct1, rule_format, OF r [OF this]]
  have 3: "allNotesCache (snd (projr
       (noteNew exampleEnv exampleMind ''ideas.md'' 1 (Some ''New'') None 0 None 0 None)))
       = [10, 11, 12, 20, 21]"
    by (simp add: cache)
  have "\<not> isl (noteClone exampleEnv exampleMind ''ideas.md'' (Some 20))"
    by code_simp
  from t [where newNote = "Some 20", THEN conjunct2, THEN conjunct2, THEN conjunct2, THEN conjunct1,
      rule_format, OF r [OF this]]
  have 4: "allNotesCache (snd (projr (noteClone exampleEnv exampleMind ''ideas.md'' (Some 20))))
       = [10, 11, 12, 20, 21]"
    by (simp add: cache)
  have "\<not> isl (noteForget exampleEnv exampleMind (Some 12))"
    by code_simp
  from t [where aNote = "Some 12", THEN conjunct2, THEN conjunct2, THEN conjunct2, THEN conjunct2,
      THEN conjunct1, rule_format, OF r [OF this]]
  have 5: "allNotesCache (snd (projr (noteForget exampleEnv exampleMind (Some 12))))
       = [10, 11, 12, 20, 21]"
    by (simp add: cache)
  note rest = t [where aNote = "Some 11" and patch = None, THEN conjunct2, THEN conjunct2,
      THEN conjunct2, THEN conjunct2, THEN conjunct2]
  have 6: "allNotesCache (snd (outlineForget exampleEnv exampleMind ''ideas.md'')) = [10, 11, 12, 20, 21]"
    using rest [THEN conjunct1] by (simp add: cache)
  note moves = rest [THEN conjunct2]
  have "\<not> isl (noteUp exampleEnv exampleMind (Some 11) None)"
    by code_simp
  from moves [THEN conjunct1, rule_format, OF r [OF this]]
  have 7: "allNotesCache (snd (projr (noteUp exampleEnv exampleMind (Some 11) None))) = [10, 11, 12, 20, 21]"
    by (simp add: cache)
  have "\<not> isl (noteDown exampleEnv exampleMind (Some 11) None)"
    by code_simp
  from moves [THEN conjunct2, THEN conjunct1, rule_format, OF r [OF this]]
  have 8: "allNotesCache (snd (projr (noteDown exampleEnv exampleMind (Some 11) None))) = [10, 11, 12, 20, 21]"
    by (simp add: cache)
  have "\<not> isl (noteFirst exampleEnv exampleMind (Some 11) None)"
    by code_simp
  from moves [THEN conjunct2, THEN conjunct2, THEN conjunct1, rule_format, OF r [OF this]]
  have 9: "allNotesCache (snd (projr (noteFirst exampleEnv exampleMind (Some 11) None))) = [10, 11, 12, 20, 21]"
    by (simp add: cache)
  have "\<not> isl (noteLast exampleEnv exampleMind (Some 11) None)"
    by code_simp
  from moves [THEN conjunct2, THEN conjunct2, THEN conjunct2, THEN conjunct1, rule_format, OF r [OF this]]
  have 10: "allNotesCache (snd (projr (noteLast exampleEnv exampleMind (Some 11) None))) = [10, 11, 12, 20, 21]"
    by (simp add: cache)
  have "\<not> isl (notePromote exampleEnv exampleMind (Some 11) None)"
    by code_simp
  from moves [THEN conjunct2, THEN conjunct2, THEN conjunct2, THEN conjunct2, THEN conjunct1,
      rule_format, OF r [OF this]]
  have 11: "allNotesCache (snd (projr (notePromote exampleEnv exampleMind (Some 11) None))) = [10, 11, 12, 20, 21]"
    by (simp add: cache)
  have "\<not> isl (noteDemote exampleEnv exampleMind (Some 11) None)"
    by code_simp
  from moves [THEN conjunct2, THEN conjunct2, THEN conjunct2, THEN conjunct2, THEN conjunct2,
      rule_format, OF r [OF this]]
  have 12: "allNotesCache (snd (projr (noteDemote exampleEnv exampleMind (Some 11) None))) = [10, 11, 12, 20, 21]"
    by (simp add: cache)
  from 1 2 3 4 5 6 7 8 9 10 11 12 show ?thesis by blast
qed

section \<open>Refactoring a Note into another Outline\<close>















end
